theory Spec2Isabelle
  imports Complex_Main
begin

section \<open>Data model\<close>

text \<open>
  The tables of the PostgreSQL store, one record per row type, with the columns the
  services read and write.  A JavaScript \<open>number\<close> holding a currency amount is a
  \<^typ>\<open>real\<close> (the rounding of IEEE doubles is not modelled), an integer column is an
  \<^typ>\<open>int\<close>, a timestamp is an \<^typ>\<open>int\<close> (milliseconds), a nullable column is an
  \<open>option\<close>.  A table is the list of its rows; a query without \<open>ORDER BY\<close> returns rows in
  table order.
\<close>

record product =
  p_id :: string
  p_name :: string
  price :: real
  stock_quantity :: int
  p_is_active :: bool

record cart_row =
  c_user_id :: string
  c_product_id :: string
  c_quantity :: int

record address =
  street :: string
  city :: string
  state :: string
  zipCode :: string
  country :: string

record order =
  o_id :: string
  o_user_id :: string
  total_amount :: real
  o_status :: string
  shipping_address :: address
  billing_address :: address
  payment_status :: string
  o_payment_method :: string
  o_created_at :: int
  o_updated_at :: int

record order_item =
  oi_order_id :: string
  oi_product_id :: string
  oi_quantity :: int
  oi_price :: real

record coupon =
  code :: string
  discount_type :: string
  discount_value :: real
  min_purchase_amount :: real
  max_discount_amount :: "real option"
  usage_limit :: "int option"
  used_count :: int
  valid_from :: int
  valid_until :: int
  is_active :: bool

record payment =
  pay_id :: string
  pay_order_id :: string
  amount :: real
  currency :: string
  payment_method :: string
  payment_intent_id :: "string option"
  status :: string
  transaction_id :: "string option"
  pay_created_at :: int
  pay_updated_at :: int

record database =
  products :: "product list"
  cart :: "cart_row list"
  orders :: "order list"
  order_items :: "order_item list"
  coupons :: "coupon list"
  payments :: "payment list"

text \<open>
  What the store supplies to one statement: \<open>CURRENT_TIMESTAMP\<close> and the identifier it
  generates for an inserted row.
\<close>

record env =
  now :: int
  new_id :: string

section \<open>Order service (order.service.ts)\<close>

text \<open>The argument of \<open>createOrderFromCart\<close>: \<open>z.infer<typeof createOrderSchema>\<close>.\<close>

record create_order_data =
  userId :: string
  shippingAddress :: address
  billingAddress :: "address option"
  paymentMethod :: string

text \<open>An element of the local array \<open>orderItems\<close>.\<close>

record item =
  productId :: string
  quantity :: int
  i_price :: real

text \<open>
  \<open>SELECT c.*, p.price, p.stock_quantity, p.name FROM cart c JOIN products p
  ON c.product_id = p.id WHERE c.user_id = $1\<close>: each cart row of the user paired with
  each product row of that id.  The query does not read \<open>is_active\<close>.
\<close>

definition cartResult :: "database \<Rightarrow> string \<Rightarrow> (cart_row \<times> product) list" where
  "cartResult db uid =
     concat (map (\<lambda>c. map (\<lambda>p. (c, p)) (filter (\<lambda>p. p_id p = c_product_id c) (products db)))
                 (filter (\<lambda>c. c_user_id c = uid) (cart db)))"

text \<open>
  The first loop of \<open>createOrderFromCart\<close> (lines 74-87), with the running \<open>totalAmount\<close>
  and \<open>orderItems\<close>; a \<open>throw\<close> is \<open>Inl\<close> of the error's message.
\<close>

fun calculate_total :: "(cart_row \<times> product) list \<Rightarrow> real \<Rightarrow> item list \<Rightarrow> string + (real \<times> item list)" where
  "calculate_total [] totalAmount orderItems = Inr (totalAmount, orderItems)"
| "calculate_total ((c, p) # rows) totalAmount orderItems =
     (if stock_quantity p < c_quantity c then Inl (''Insufficient stock for '' @ p_name p)
      else calculate_total rows (totalAmount + price p * real_of_int (c_quantity c))
             (orderItems @ [\<lparr>productId = c_product_id c, quantity = c_quantity c, i_price = price p\<rparr>]))"

text \<open>
  Lines 58-87: the cart query, the empty-cart check and the first loop.  Nothing is
  written to the store before line 90.
\<close>

definition read_cart :: "database \<Rightarrow> string \<Rightarrow> string + (real \<times> item list)" where
  "read_cart db uid =
     (let rows = cartResult db uid in
      if rows = [] then Inl ''Cart is empty'' else calculate_total rows 0 [])"

text \<open>\<open>INSERT INTO order_items (order_id, product_id, quantity, price) VALUES (...)\<close>\<close>

definition insert_order_item :: "string \<Rightarrow> item \<Rightarrow> database \<Rightarrow> database" where
  "insert_order_item oid it db =
     db\<lparr>order_items := order_items db @
          [\<lparr>oi_order_id = oid, oi_product_id = productId it, oi_quantity = quantity it,
            oi_price = i_price it\<rparr>]\<rparr>"

text \<open>\<open>UPDATE products SET stock_quantity = stock_quantity - $1 WHERE id = $2\<close>\<close>

definition update_stock :: "int \<Rightarrow> string \<Rightarrow> database \<Rightarrow> database" where
  "update_stock q pid db =
     db\<lparr>products := map (\<lambda>p. if p_id p = pid then p\<lparr>stock_quantity := stock_quantity p - q\<rparr> else p)
                         (products db)\<rparr>"

text \<open>The second loop (lines 109-120).\<close>

fun create_order_items :: "string \<Rightarrow> item list \<Rightarrow> database \<Rightarrow> database" where
  "create_order_items oid [] db = db"
| "create_order_items oid (it # its) db =
     create_order_items oid its (update_stock (quantity it) (productId it) (insert_order_item oid it db))"

text \<open>\<open>DELETE FROM cart WHERE user_id = $1\<close>\<close>

definition clear_cart :: "string \<Rightarrow> database \<Rightarrow> database" where
  "clear_cart uid db = db\<lparr>cart := filter (\<lambda>c. c_user_id c \<noteq> uid) (cart db)\<rparr>"

text \<open>
  Lines 90-125: the order row (\<open>billingAddress || shippingAddress\<close>, status and payment
  status \<open>pending\<close>), the order items with the stock updates, and the cart deletion.  The
  statements run one by one, outside any transaction.
\<close>

definition new_order :: "env \<Rightarrow> create_order_data \<Rightarrow> real \<Rightarrow> order" where
  "new_order e d totalAmount =
     \<lparr>o_id = new_id e, o_user_id = userId d, total_amount = totalAmount, o_status = ''pending'',
      shipping_address = shippingAddress d,
      billing_address = (case billingAddress d of Some b \<Rightarrow> b | None \<Rightarrow> shippingAddress d),
      payment_status = ''pending'', o_payment_method = paymentMethod d,
      o_created_at = now e, o_updated_at = now e\<rparr>"

definition write_order :: "env \<Rightarrow> create_order_data \<Rightarrow> real \<times> item list \<Rightarrow> database \<Rightarrow> order \<times> database" where
  "write_order e d r db =
     (let ord = new_order e d (fst r);
          db1 = db\<lparr>orders := orders db @ [ord]\<rparr>;
          db2 = create_order_items (o_id ord) (snd r) db1
      in (ord, clear_cart (userId d) db2))"

text \<open>
  The whole call.  The result pairs what the call returns (\<open>Inl\<close> the message of the error
  thrown, \<open>Inr\<close> the order row) with the store as the call leaves it.
\<close>

definition createOrderFromCart :: "env \<Rightarrow> database \<Rightarrow> create_order_data \<Rightarrow> (string + order) \<times> database" where
  "createOrderFromCart e db d =
     (case read_cart db (userId d) of
        Inl err \<Rightarrow> (Inl err, db)
      | Inr r \<Rightarrow> (case write_order e d r db of (ord, db') \<Rightarrow> (Inr ord, db')))"

text \<open>
  Two calls that overlap: every \<open>await\<close> is a point where another request may run, so the
  second call can run its lines 58-87 after the first has run its own and before the
  first reaches line 90.  This is that schedule: both read the store \<open>db\<close>, then the first
  writes, then the second writes what it computed from \<open>db\<close>.
\<close>

definition createOrderFromCart_overlapped ::
  "env \<Rightarrow> env \<Rightarrow> database \<Rightarrow> create_order_data \<Rightarrow> create_order_data
     \<Rightarrow> (string + order) \<times> (string + order) \<times> database" where
  "createOrderFromCart_overlapped e1 e2 db d1 d2 =
     (let r1 = read_cart db (userId d1);
          r2 = read_cart db (userId d2);
          (res1, db1) = (case r1 of Inl err \<Rightarrow> (Inl err, db)
                         | Inr r \<Rightarrow> (case write_order e1 d1 r db of (ord, db') \<Rightarrow> (Inr ord, db')));
          (res2, db2) = (case r2 of Inl err \<Rightarrow> (Inl err, db1)
                         | Inr r \<Rightarrow> (case write_order e2 d2 r db1 of (ord, db') \<Rightarrow> (Inr ord, db')))
      in (res1, res2, db2))"

subsection \<open>The route \<open>POST /api/orders\<close>\<close>

text \<open>
  The request body as the route receives it: the keys of \<open>createOrderSchema\<close>, each
  possibly missing, and a key \<open>couponCode\<close> that the schema does not declare.
  \<open>z.object\<close> drops the keys it does not declare; \<open>userId\<close> comes from the
  authenticated user and must have the shape of a UUID (8-4-4-4-12 hexadecimal digits);
  \<open>paymentMethod\<close> defaults to \<open>card\<close>.  A \<open>ZodError\<close> is answered with
  \<open>Validation error\<close>.
\<close>

record order_body =
  b_shippingAddress :: "address option"
  b_billingAddress :: "address option"
  b_paymentMethod :: "string option"
  b_couponCode :: "string option"

definition is_hex :: "char \<Rightarrow> bool" where
  "is_hex c = (c \<in> set ''0123456789abcdefABCDEF'')"

definition is_uuid :: "string \<Rightarrow> bool" where
  "is_uuid s =
     (length s = 36 \<and> list_all is_hex (take 8 s) \<and> s ! 8 = CHR ''-'' \<and>
      list_all is_hex (take 4 (drop 9 s)) \<and> s ! 13 = CHR ''-'' \<and>
      list_all is_hex (take 4 (drop 14 s)) \<and> s ! 18 = CHR ''-'' \<and>
      list_all is_hex (take 4 (drop 19 s)) \<and> s ! 23 = CHR ''-'' \<and>
      list_all is_hex (drop 24 s))"

definition createOrderSchema_parse :: "string \<Rightarrow> order_body \<Rightarrow> create_order_data option" where
  "createOrderSchema_parse uid b =
     (if \<not> is_uuid uid then None
      else case b_shippingAddress b of
             None \<Rightarrow> None
           | Some a \<Rightarrow>
               Some \<lparr>userId = uid, shippingAddress = a, billingAddress = b_billingAddress b,
                     paymentMethod = (case b_paymentMethod b of None \<Rightarrow> ''card'' | Some m \<Rightarrow> m)\<rparr>)"

definition post_orders :: "env \<Rightarrow> database \<Rightarrow> string \<Rightarrow> order_body \<Rightarrow> (string + order) \<times> database" where
  "post_orders e db uid b =
     (case createOrderSchema_parse uid b of
        None \<Rightarrow> (Inl ''Validation error'', db)
      | Some d \<Rightarrow> createOrderFromCart e db d)"

section \<open>Coupon service (coupon.service.ts)\<close>

text \<open>\<open>String.prototype.toUpperCase\<close> on ASCII text.\<close>

definition upper_char :: "char \<Rightarrow> char" where
  "upper_char c =
     (case map_of (zip ''abcdefghijklmnopqrstuvwxyz'' ''ABCDEFGHIJKLMNOPQRSTUVWXYZ'') c of
        Some u \<Rightarrow> u
      | None \<Rightarrow> c)"

definition toUpperCase :: "string \<Rightarrow> string" where
  "toUpperCase s = map upper_char s"

text \<open>
  \<open>SELECT * FROM coupons WHERE code = $1 AND is_active = true\<close> with the upper-cased
  code; the first row, or \<open>null\<close>.
\<close>

definition getByCode :: "database \<Rightarrow> string \<Rightarrow> coupon option" where
  "getByCode db c =
     (case filter (\<lambda>k. code k = toUpperCase c \<and> is_active k) (coupons db) of
        [] \<Rightarrow> None
      | k # _ \<Rightarrow> Some k)"

text \<open>
  The messages of \<open>validateCoupon\<close>: \<open>Invalid coupon code\<close>, \<open>Coupon has expired\<close>,
  \<open>Coupon usage limit reached\<close> and \<open>Minimum purchase amount is $<amount>\<close>, the last
  with the amount it interpolates.
\<close>

datatype coupon_message =
  Invalid_coupon_code
| Coupon_has_expired
| Coupon_usage_limit_reached
| Minimum_purchase_amount_is real

record validation =
  valid :: bool
  discount :: real
  message :: "coupon_message option"

text \<open>
  The discount of a coupon that passed the checks (lines 104-112).  \<open>a && b\<close> on a
  nullable number takes \<open>null\<close> and \<open>0\<close> as false.
\<close>

definition compute_discount :: "coupon \<Rightarrow> real \<Rightarrow> real" where
  "compute_discount k orderAmount =
     (if discount_type k = ''percentage'' then
        (let d = (orderAmount * discount_value k) / 100 in
         case max_discount_amount k of
           None \<Rightarrow> d
         | Some m \<Rightarrow> if m \<noteq> 0 \<and> d > m then m else d)
      else discount_value k)"

text \<open>\<open>validateCoupon\<close>; the first argument is the clock's \<open>new Date()\<close>.\<close>

definition validateCoupon :: "int \<Rightarrow> database \<Rightarrow> string \<Rightarrow> real \<Rightarrow> validation" where
  "validateCoupon t db c orderAmount =
     (case getByCode db c of
        None \<Rightarrow> \<lparr>valid = False, discount = 0, message = Some Invalid_coupon_code\<rparr>
      | Some k \<Rightarrow>
          if valid_from k > t \<or> valid_until k < t then
            \<lparr>valid = False, discount = 0, message = Some Coupon_has_expired\<rparr>
          else if (case usage_limit k of None \<Rightarrow> False | Some l \<Rightarrow> l \<noteq> 0 \<and> used_count k \<ge> l) then
            \<lparr>valid = False, discount = 0, message = Some Coupon_usage_limit_reached\<rparr>
          else if orderAmount < min_purchase_amount k then
            \<lparr>valid = False, discount = 0,
             message = Some (Minimum_purchase_amount_is (min_purchase_amount k))\<rparr>
          else \<lparr>valid = True, discount = compute_discount k orderAmount, message = None\<rparr>)"

text \<open>
  \<open>UPDATE coupons SET used_count = used_count + 1 WHERE code = $1 RETURNING *\<close>: the
  first updated row (or \<open>undefined\<close>) and the store.
\<close>

definition applyCoupon :: "database \<Rightarrow> string \<Rightarrow> coupon option \<times> database" where
  "applyCoupon db c =
     (let hit = (\<lambda>k. code k = toUpperCase c);
          upd = (\<lambda>k. k\<lparr>used_count := used_count k + 1\<rparr>)
      in (case map upd (filter hit (coupons db)) of [] \<Rightarrow> None | k # _ \<Rightarrow> Some k,
          db\<lparr>coupons := map (\<lambda>k. if hit k then upd k else k) (coupons db)\<rparr>))"

section \<open>Payment service (payment.service.ts)\<close>

text \<open>
  The payment processor is outside the repository: it is a parameter, the two calls the
  service makes, each answering with an error or a payment intent.
\<close>

record payment_intent =
  pi_id :: string
  pi_status :: string
  client_secret :: "string option"

record intent_params =
  ip_amount :: int
  ip_currency :: string
  payment_method_types :: "string list"
  metadata_orderId :: string

record stripe =
  paymentIntents_create :: "intent_params \<Rightarrow> string + payment_intent"
  paymentIntents_retrieve :: "string \<Rightarrow> string + payment_intent"

record create_payment_intent_data =
  d_orderId :: string
  d_amount :: real
  d_currency :: string
  d_paymentMethod :: string

text \<open>\<open>Math.round\<close>: the nearest integer, a half rounded up.\<close>

definition Math_round :: "real \<Rightarrow> int" where
  "Math_round x = \<lfloor>x + 1 / 2\<rfloor>"

definition lower_char :: "char \<Rightarrow> char" where
  "lower_char c =
     (case map_of (zip ''ABCDEFGHIJKLMNOPQRSTUVWXYZ'' ''abcdefghijklmnopqrstuvwxyz'') c of
        Some l \<Rightarrow> l
      | None \<Rightarrow> c)"

definition toLowerCase :: "string \<Rightarrow> string" where
  "toLowerCase s = map lower_char s"

definition createPaymentIntent ::
  "env \<Rightarrow> stripe \<Rightarrow> database \<Rightarrow> create_payment_intent_data
     \<Rightarrow> (string + payment \<times> string option) \<times> database" where
  "createPaymentIntent e s db d =
     (case filter (\<lambda>ord. o_id ord = d_orderId d) (orders db) of
        [] \<Rightarrow> (Inl ''Order not found'', db)
      | ord # _ \<Rightarrow>
          if payment_status ord = ''paid'' then (Inl ''Order is already paid'', db)
          else
            (case paymentIntents_create s
                    \<lparr>ip_amount = Math_round (d_amount d * 100),
                     ip_currency = toLowerCase (d_currency d),
                     payment_method_types = [d_paymentMethod d],
                     metadata_orderId = d_orderId d\<rparr> of
               Inl err \<Rightarrow> (Inl err, db)
             | Inr paymentIntent \<Rightarrow>
                 (let pay = \<lparr>pay_id = new_id e, pay_order_id = d_orderId d, amount = d_amount d,
                             currency = d_currency d, payment_method = d_paymentMethod d,
                             payment_intent_id = Some (pi_id paymentIntent), status = ''pending'',
                             transaction_id = None, pay_created_at = now e, pay_updated_at = now e\<rparr>
                  in (Inr (pay, client_secret paymentIntent),
                      db\<lparr>payments := payments db @ [pay]\<rparr>))))"

text \<open>
  \<open>UPDATE orders SET payment_status = $s, updated_at = CURRENT_TIMESTAMP WHERE id = $1\<close>
\<close>

definition set_order_payment_status :: "env \<Rightarrow> string \<Rightarrow> string \<Rightarrow> database \<Rightarrow> database" where
  "set_order_payment_status e st oid db =
     db\<lparr>orders := map (\<lambda>ord. if o_id ord = oid then ord\<lparr>payment_status := st, o_updated_at := now e\<rparr>
                                else ord) (orders db)\<rparr>"

text \<open>
  \<open>confirmPayment\<close>: the intent is retrieved, every payment row of that intent id gets the
  status, the transaction id and a new \<open>updated_at\<close>; the first updated row is returned
  after the order of that row has been updated, for the statuses \<open>succeeded\<close> and
  \<open>payment_failed\<close> only.
\<close>

definition confirmPayment :: "env \<Rightarrow> stripe \<Rightarrow> database \<Rightarrow> string \<Rightarrow> (string + payment) \<times> database" where
  "confirmPayment e s db paymentIntentId =
     (case paymentIntents_retrieve s paymentIntentId of
        Inl err \<Rightarrow> (Inl err, db)
      | Inr paymentIntent \<Rightarrow>
          (let hit = (\<lambda>p. payment_intent_id p = Some paymentIntentId);
               upd = (\<lambda>p. p\<lparr>status := (if pi_status paymentIntent = ''succeeded'' then ''succeeded''
                                         else ''failed''),
                              transaction_id := Some (pi_id paymentIntent),
                              pay_updated_at := now e\<rparr>);
               db1 = db\<lparr>payments := map (\<lambda>p. if hit p then upd p else p) (payments db)\<rparr>
           in case map upd (filter hit (payments db)) of
                [] \<Rightarrow> (Inl ''Payment record not found'', db1)
              | pay # _ \<Rightarrow>
                  (Inr pay,
                   if pi_status paymentIntent = ''succeeded'' then
                     set_order_payment_status e ''paid'' (pay_order_id pay) db1
                   else if pi_status paymentIntent = ''payment_failed'' then
                     set_order_payment_status e ''failed'' (pay_order_id pay) db1
                   else db1)))"

section \<open>Notions the properties are stated with\<close>

text \<open>The sum of price times quantity over the rows read from the cart.\<close>

definition subtotal :: "(cart_row \<times> product) list \<Rightarrow> real" where
  "subtotal rows = sum_list (map (\<lambda>(c, p). price p * real_of_int (c_quantity c)) rows)"

text \<open>The order item of one row read from the cart, for the order \<open>oid\<close>.\<close>

definition order_items_for :: "string \<Rightarrow> (cart_row \<times> product) list \<Rightarrow> order_item list" where
  "order_items_for oid rows =
     map (\<lambda>(c, p). \<lparr>oi_order_id = oid, oi_product_id = c_product_id c, oi_quantity = c_quantity c,
                     oi_price = price p\<rparr>) rows"

text \<open>The quantity of the product \<open>pid\<close> that the rows order, all lines together.\<close>

definition ordered_quantity :: "(cart_row \<times> product) list \<Rightarrow> string \<Rightarrow> int" where
  "ordered_quantity rows pid =
     sum_list (map (\<lambda>(c, p). c_quantity c) (filter (\<lambda>(c, p). c_product_id c = pid) rows))"

text \<open>The first row whose stock is below the quantity asked for.\<close>

definition first_short :: "(cart_row \<times> product) list \<Rightarrow> (cart_row \<times> product) option" where
  "first_short rows = find (\<lambda>(c, p). stock_quantity p < c_quantity c) rows"

text \<open>The products table with the stock of each product reduced by what the rows order.\<close>

definition decremented :: "(cart_row \<times> product) list \<Rightarrow> product list \<Rightarrow> product list" where
  "decremented rows ps =
     map (\<lambda>p. p\<lparr>stock_quantity := stock_quantity p - ordered_quantity rows (p_id p)\<rparr>) ps"

text \<open>
  A store where product ids are unique, a user has at most one cart line per product, and
  no stock is negative.
\<close>

definition store_ok :: "database \<Rightarrow> bool" where
  "store_ok db =
     (distinct (map p_id (products db)) \<and>
      distinct (map (\<lambda>c. (c_user_id c, c_product_id c)) (cart db)) \<and>
      list_all (\<lambda>p. 0 \<le> stock_quantity p) (products db))"



section \<open>Example stores\<close>

definition addr0 :: address where
  "addr0 = \<lparr>street = ''1 Main St'', city = ''Pune'', state = ''MH'', zipCode = ''411001'',
            country = ''IN''\<rparr>"

definition user1 :: string where
  "user1 = ''123e4567-e89b-42d3-a456-426614174000''"

definition user2 :: string where
  "user2 = ''123e4567-e89b-42d3-a456-426614174001''"

definition env1 :: env where
  "env1 = \<lparr>now = 1000, new_id = ''order-1''\<rparr>"

definition env2 :: env where
  "env2 = \<lparr>now = 2000, new_id = ''order-2''\<rparr>"

definition data1 :: create_order_data where
  "data1 = \<lparr>userId = user1, shippingAddress = addr0, billingAddress = None, paymentMethod = ''card''\<rparr>"

definition data2 :: create_order_data where
  "data2 = \<lparr>userId = user2, shippingAddress = addr0, billingAddress = None, paymentMethod = ''card''\<rparr>"

text \<open>Product A at 10.00 with the given stock and active flag.\<close>

definition productA :: "int \<Rightarrow> bool \<Rightarrow> product" where
  "productA n act = \<lparr>p_id = ''A'', p_name = ''Widget'', price = 10, stock_quantity = n, p_is_active = act\<rparr>"

definition coupon0 :: coupon where
  "coupon0 = \<lparr>code = ''SAVE10'', discount_type = ''percentage'', discount_value = 10,
              min_purchase_amount = 15, max_discount_amount = None, usage_limit = Some 1,
              used_count = 0, valid_from = 0, valid_until = 5000, is_active = True\<rparr>"

text \<open>The scenario of the specification: user 1 has two of product A in the cart, stock is 5.\<close>

definition db_scenario :: database where
  "db_scenario =
     \<lparr>products = [productA 5 True],
      cart = [\<lparr>c_user_id = user1, c_product_id = ''A'', c_quantity = 2\<rparr>],
      orders = [], order_items = [], coupons = [coupon0], payments = []\<rparr>"

text \<open>The same with product A deactivated after it was put into the cart.\<close>

definition db_inactive :: database where
  "db_inactive = db_scenario\<lparr>products := [productA 5 False]\<rparr>"

text \<open>Stock 1, and users 1 and 2 each with one of product A in the cart.\<close>

definition db_last_unit :: database where
  "db_last_unit =
     \<lparr>products = [productA 1 True],
      cart = [\<lparr>c_user_id = user1, c_product_id = ''A'', c_quantity = 1\<rparr>,
              \<lparr>c_user_id = user2, c_product_id = ''A'', c_quantity = 1\<rparr>],
      orders = [], order_items = [], coupons = [], payments = []\<rparr>"

text \<open>The order, the order item and the store that the scenario ends with.\<close>

definition ord_scenario :: order where
  "ord_scenario =
     \<lparr>o_id = ''order-1'', o_user_id = user1, total_amount = 20, o_status = ''pending'',
      shipping_address = addr0, billing_address = addr0, payment_status = ''pending'',
      o_payment_method = ''card'', o_created_at = 1000, o_updated_at = 1000\<rparr>"

definition item_scenario :: order_item where
  "item_scenario = \<lparr>oi_order_id = ''order-1'', oi_product_id = ''A'', oi_quantity = 2, oi_price = 10\<rparr>"

definition db_scenario_after :: database where
  "db_scenario_after =
     db_scenario\<lparr>orders := [ord_scenario], order_items := [item_scenario],
                  products := [productA 3 True], cart := []\<rparr>"

text \<open>A request body that supplies a coupon code, and a store whose coupon has expired.\<close>

definition body_coupon :: order_body where
  "body_coupon = \<lparr>b_shippingAddress = Some addr0, b_billingAddress = None, b_paymentMethod = None,
                  b_couponCode = Some ''SAVE10''\<rparr>"

definition db_expired :: database where
  "db_expired = db_scenario\<lparr>coupons := [coupon0\<lparr>valid_until := 500\<rparr>]\<rparr>"

text \<open>A fixed coupon of 50.00, and a store where \<open>SAVE10\<close> has been used as often as its limit allows.\<close>

definition coupon_fixed :: coupon where
  "coupon_fixed = \<lparr>code = ''FLAT50'', discount_type = ''fixed'', discount_value = 50,
              min_purchase_amount = 0, max_discount_amount = None, usage_limit = None,
              used_count = 0, valid_from = 0, valid_until = 5000, is_active = True\<rparr>"

definition db_coupons :: database where
  "db_coupons = db_scenario\<lparr>coupons := [coupon0\<lparr>used_count := 1\<rparr>, coupon_fixed]\<rparr>"

text \<open>
  A processor that knows the intent \<open>pi_1\<close> and reports the given status for it; an order
  of 20.00 awaiting payment, with one pending payment for that intent.
\<close>

definition intent1 :: "string \<Rightarrow> payment_intent" where
  "intent1 st = \<lparr>pi_id = ''pi_1'', pi_status = st, client_secret = Some ''pi_1_secret''\<rparr>"

definition stripe_reporting :: "string \<Rightarrow> stripe" where
  "stripe_reporting st =
     \<lparr>paymentIntents_create = (\<lambda>p. Inr (intent1 ''requires_payment_method'')),
      paymentIntents_retrieve = (\<lambda>r. if r = ''pi_1'' then Inr (intent1 st) else Inl ''No such payment_intent'')\<rparr>"

definition order1 :: order where
  "order1 =
     \<lparr>o_id = ''order-1'', o_user_id = user1, total_amount = 20, o_status = ''pending'',
      shipping_address = addr0, billing_address = addr0, payment_status = ''pending'',
      o_payment_method = ''card'', o_created_at = 500, o_updated_at = 500\<rparr>"

definition payment1 :: payment where
  "payment1 =
     \<lparr>pay_id = ''payment-1'', pay_order_id = ''order-1'', amount = 20, currency = ''usd'',
      payment_method = ''card'', payment_intent_id = Some ''pi_1'', status = ''pending'',
      transaction_id = None, pay_created_at = 600, pay_updated_at = 600\<rparr>"

definition db_pay :: database where
  "db_pay = \<lparr>products = [], cart = [], orders = [order1], order_items = [], coupons = [],
             payments = [payment1]\<rparr>"

definition db_unpaid :: database where
  "db_unpaid = db_pay\<lparr>payments := []\<rparr>"

definition intent_data :: create_payment_intent_data where
  "intent_data = \<lparr>d_orderId = ''order-1'', d_amount = 5, d_currency = ''USD'', d_paymentMethod = ''card''\<rparr>"

definition env3 :: env where
  "env3 = \<lparr>now = 700, new_id = ''payment-2''\<rparr>"

text \<open>The payment and the store after the first confirmation, at time 1000.\<close>

definition payment1_confirmed :: payment where
  "payment1_confirmed =
     payment1\<lparr>status := ''succeeded'', transaction_id := Some ''pi_1'', pay_updated_at := 1000\<rparr>"

definition db_confirmed :: database where
  "db_confirmed =
     db_pay\<lparr>payments := [payment1_confirmed],
            orders := [order1\<lparr>payment_status := ''paid'', o_updated_at := 1000\<rparr>]\<rparr>"

section \<open>Order service: the two loops\<close>

lemma find_Some_member: "find P xs = Some x \<Longrightarrow> P x \<and> x \<in> set xs"
  by (induction xs) (auto split: if_splits)

lemma calculate_total_eq:
  "calculate_total rows t its =
     (case first_short rows of
        None \<Rightarrow> Inr (t + subtotal rows,
                     its @ map (\<lambda>(c, p). \<lparr>productId = c_product_id c, quantity = c_quantity c,
                                            i_price = price p\<rparr>) rows)
      | Some (c, p) \<Rightarrow> Inl (''Insufficient stock for '' @ p_name p))"
  by (induction rows t its rule: calculate_total.induct)
     (auto simp: subtotal_def first_short_def split: option.splits)

lemma create_order_items_eq:
  "create_order_items oid its db =
     db\<lparr>order_items := order_items db @
          map (\<lambda>it. \<lparr>oi_order_id = oid, oi_product_id = productId it, oi_quantity = quantity it,
                      oi_price = i_price it\<rparr>) its,
        products := map (\<lambda>p. p\<lparr>stock_quantity := stock_quantity p -
                                  sum_list (map quantity (filter (\<lambda>it. productId it = p_id p) its))\<rparr>)
                      (products db)\<rparr>"
proof (induction its arbitrary: db)
  case Nil
  show ?case by simp
next
  case (Cons it its)
  show ?case
    by (simp add: Cons.IH insert_order_item_def update_stock_def o_def cong: map_cong)
qed

lemma ordered_quantity_items:
  "sum_list (map quantity (filter (\<lambda>it. productId it = pid)
      (map (\<lambda>(c, p). \<lparr>productId = c_product_id c, quantity = c_quantity c, i_price = price p\<rparr>) rows)))
   = ordered_quantity rows pid"
  by (induction rows) (auto simp: ordered_quantity_def)

lemma order_items_for_items:
  "map (\<lambda>it. \<lparr>oi_order_id = oid, oi_product_id = productId it, oi_quantity = quantity it,
                      oi_price = i_price it\<rparr>)
     (map (\<lambda>(c, p). \<lparr>productId = c_product_id c, quantity = c_quantity c, i_price = price p\<rparr>) rows)
   = order_items_for oid rows"
  by (induction rows) (auto simp: order_items_for_def)

lemma write_order_eq:
  "write_order e d (t, map (\<lambda>(c, p). \<lparr>productId = c_product_id c, quantity = c_quantity c,
                                        i_price = price p\<rparr>) rows) db =
     (new_order e d t,
      db\<lparr>orders := orders db @ [new_order e d t],
         order_items := order_items db @ order_items_for (new_id e) rows,
         products := decremented rows (products db),
         cart := filter (\<lambda>c. c_user_id c \<noteq> userId d) (cart db)\<rparr>)"
proof -
  have "o_id (new_order e d t) = new_id e"
    by (simp add: new_order_def)
  then show ?thesis
    by (simp add: write_order_def Let_def create_order_items_eq clear_cart_def
        ordered_quantity_items order_items_for_items decremented_def del: map_map)
qed

lemma createOrderFromCart_eq:
  "createOrderFromCart e db d =
     (let rows = cartResult db (userId d) in
      if rows = [] then (Inl ''Cart is empty'', db)
      else case first_short rows of
             Some (c, p) \<Rightarrow> (Inl (''Insufficient stock for '' @ p_name p), db)
           | None \<Rightarrow>
               (Inr (new_order e d (subtotal rows)),
                db\<lparr>orders := orders db @ [new_order e d (subtotal rows)],
                   order_items := order_items db @ order_items_for (new_id e) rows,
                   products := decremented rows (products db),
                   cart := filter (\<lambda>c. c_user_id c \<noteq> userId d) (cart db)\<rparr>))"
  by (simp add: createOrderFromCart_def read_cart_def Let_def calculate_total_eq write_order_eq
      split: option.splits)


lemma read_cart_eq:
  "read_cart db uid =
     (if cartResult db uid = [] then Inl ''Cart is empty''
      else case first_short (cartResult db uid) of
             Some (c, p) \<Rightarrow> Inl (''Insufficient stock for '' @ p_name p)
           | None \<Rightarrow> Inr (subtotal (cartResult db uid),
                          map (\<lambda>(c, p). \<lparr>productId = c_product_id c, quantity = c_quantity c,
                                            i_price = price p\<rparr>) (cartResult db uid)))"
  by (simp add: read_cart_def Let_def calculate_total_eq split: option.splits)

lemma scenario_rows:
  "cartResult db_scenario (userId data1) =
     [(\<lparr>c_user_id = user1, c_product_id = ''A'', c_quantity = 2\<rparr>, productA 5 True)]"
  by (simp add: cartResult_def db_scenario_def data1_def productA_def)

lemma createOrderFromCart_scenario:
  "createOrderFromCart env1 db_scenario data1 = (Inr ord_scenario, db_scenario_after)"
  by (simp add: createOrderFromCart_eq Let_def cartResult_def db_scenario_def data1_def env1_def
      first_short_def subtotal_def order_items_for_def decremented_def ordered_quantity_def
      new_order_def productA_def user1_def ord_scenario_def item_scenario_def addr0_def
      db_scenario_after_def)

section \<open>Order creation\<close>



text \<open>
  Claim C1, on a cart whose product was deactivated after it was put there: product A is
  inactive, its stock (5) covers the quantity asked for (2).  \<open>createOrderFromCart\<close> does
  not fail: it returns the order, inserts the order item, takes the stock to 3 and
  empties the cart.  The cart service refuses an inactive product when a line is added or
  changed; the order service never reads \<open>is_active\<close>.
\<close>

theorem createOrderFromCart_inactive_product:
  "p_is_active (productA 5 False) = False \<and>
   createOrderFromCart env1 db_inactive data1 =
     (Inr ord_scenario,
      db_inactive\<lparr>orders := [ord_scenario], order_items := [item_scenario],
         products := [productA 3 False], cart := []\<rparr>)"
  by (simp add: createOrderFromCart_eq Let_def cartResult_def db_scenario_def db_inactive_def data1_def env1_def
      first_short_def subtotal_def order_items_for_def decremented_def ordered_quantity_def
      new_order_def productA_def user1_def ord_scenario_def item_scenario_def addr0_def)

text \<open>
  The part of C1 about stock.  When some row read from the cart asks for more than the
  stock, the call throws \<open>Insufficient stock for <name>\<close> with the name of the first
  such product, and the store is as it was: products, cart, coupons, orders and order
  items.
\<close>

theorem createOrderFromCart_insufficient_stock:
  assumes "first_short (cartResult db (userId d)) = Some (c, p)"
  shows "stock_quantity p < c_quantity c \<and> (c, p) \<in> set (cartResult db (userId d)) \<and>
         createOrderFromCart e db d = (Inl (''Insufficient stock for '' @ p_name p), db)"
proof -
  from assms have "cartResult db (userId d) \<noteq> []"
    by (auto simp: first_short_def)
  moreover from assms have "stock_quantity p < c_quantity c \<and> (c, p) \<in> set (cartResult db (userId d))"
    by (auto simp: first_short_def dest: find_Some_member)
  ultimately show ?thesis
    using assms by (simp add: createOrderFromCart_eq Let_def)
qed

theorem createOrderFromCart_insufficient_stock_witness:
  "first_short (cartResult (db_scenario\<lparr>products := [productA 1 True]\<rparr>) (userId data1)) =
     Some (\<lparr>c_user_id = user1, c_product_id = ''A'', c_quantity = 2\<rparr>, productA 1 True) \<and>
   createOrderFromCart env1 (db_scenario\<lparr>products := [productA 1 True]\<rparr>) data1 =
     (Inl ''Insufficient stock for Widget'', db_scenario\<lparr>products := [productA 1 True]\<rparr>)"
proof -
  have h: "first_short (cartResult (db_scenario\<lparr>products := [productA 1 True]\<rparr>) (userId data1)) =
     Some (\<lparr>c_user_id = user1, c_product_id = ''A'', c_quantity = 2\<rparr>, productA 1 True)"
    by (simp add: cartResult_def db_scenario_def data1_def first_short_def productA_def)
  show ?thesis
    using h createOrderFromCart_insufficient_stock [OF h, of env1]
    by (simp add: productA_def)
qed

text \<open>
  When the call succeeds: exactly when the cart query returns at least one row and every
  row asks for no more than the stock of its product.
\<close>

theorem createOrderFromCart_succeeds_iff:
  "(\<exists>ord. fst (createOrderFromCart e db d) = Inr ord) \<longleftrightarrow>
     cartResult db (userId d) \<noteq> [] \<and>
     (\<forall>(c, p) \<in> set (cartResult db (userId d)). c_quantity c \<le> stock_quantity p)"
proof -
  let ?rows = "cartResult db (userId d)"
  have short: "first_short ?rows = None \<longleftrightarrow> (\<forall>(c, p) \<in> set ?rows. c_quantity c \<le> stock_quantity p)"
    by (fastforce simp: first_short_def find_None_iff not_less)
  show ?thesis
  proof (cases "first_short ?rows")
    case None
    with short show ?thesis
      by (simp add: createOrderFromCart_eq Let_def)
  next
    case (Some r)
    with short have "\<not> (\<forall>(c, p) \<in> set ?rows. c_quantity c \<le> stock_quantity p)"
      by simp
    with Some show ?thesis
      by (simp add: createOrderFromCart_eq Let_def split_def)
  qed
qed

theorem createOrderFromCart_succeeds_iff_witness:
  "(\<exists>ord. fst (createOrderFromCart env1 db_scenario data1) = Inr ord) \<and>
   cartResult db_scenario (userId data1) \<noteq> [] \<and>
   list_all (\<lambda>(c, p). c_quantity c \<le> stock_quantity p) (cartResult db_scenario (userId data1)) \<and>
   \<not> (\<exists>ord. fst (createOrderFromCart env1 (db_scenario\<lparr>cart := []\<rparr>) data1) = Inr ord)"
proof -
  have a: "cartResult db_scenario (userId data1) \<noteq> []"
    and b: "list_all (\<lambda>(c, p). c_quantity c \<le> stock_quantity p) (cartResult db_scenario (userId data1))"
    by (simp_all add: scenario_rows productA_def)
  have c: "cartResult (db_scenario\<lparr>cart := []\<rparr>) (userId data1) = []"
    by (simp add: cartResult_def)
  from a b have "\<exists>ord. fst (createOrderFromCart env1 db_scenario data1) = Inr ord"
    by (simp add: createOrderFromCart_succeeds_iff [of env1 db_scenario data1] list_all_iff)
  moreover from c have "\<not> (\<exists>ord. fst (createOrderFromCart env1 (db_scenario\<lparr>cart := []\<rparr>) data1) = Inr ord)"
    by (simp add: createOrderFromCart_succeeds_iff [of env1 "db_scenario\<lparr>cart := []\<rparr>" data1])
  ultimately show ?thesis
    using a b by (intro conjI)
qed

lemma filter_rows_product:
  "filter (\<lambda>(c, q). c_product_id c = pid)
     (concat (map (\<lambda>c. map (\<lambda>p. (c, p)) (filter (\<lambda>p. p_id p = c_product_id c) ps)) cs)) =
   concat (map (\<lambda>c. map (\<lambda>p. (c, p)) (filter (\<lambda>p. p_id p = pid) ps))
            (filter (\<lambda>c. c_product_id c = pid) cs))"
  by (induction cs) (auto simp: filter_map o_def)

lemma distinct_no_other:
  assumes "distinct (map f (y # ys))"
  shows "filter (\<lambda>x. f x = f y) ys = []"
proof -
  from assms have "f y \<notin> f ` set ys"
    by simp
  then have "\<forall>x \<in> set ys. f x \<noteq> f y"
    by (metis imageI)
  then show ?thesis
    by (simp add: filter_empty_conv)
qed

lemma distinct_filter_key:
  "distinct (map f xs) \<Longrightarrow> filter (\<lambda>x. f x = a) xs = [] \<or> (\<exists>x. filter (\<lambda>x. f x = a) xs = [x])"
proof (induction xs)
  case Nil
  show ?case by simp
next
  case (Cons y ys)
  show ?case
  proof (cases "f y = a")
    case True
    with distinct_no_other [OF Cons.prems] show ?thesis by simp
  next
    case False
    with Cons show ?thesis by simp
  qed
qed

lemma distinct_filter_member:
  assumes "distinct (map f xs)" and "x \<in> set xs"
  shows "filter (\<lambda>y. f y = f x) xs = [x]"
  using assms
proof (induction xs)
  case Nil
  then show ?case by simp
next
  case (Cons y ys)
  show ?case
  proof (cases "y = x")
    case True
    with distinct_no_other [OF Cons.prems(1)] show ?thesis by simp
  next
    case False
    with Cons.prems have "x \<in> set ys"
      by simp
    moreover from Cons.prems(1) have "f y \<notin> f ` set ys"
      by simp
    ultimately have "f y \<noteq> f x"
      by (metis imageI)
    with Cons \<open>x \<in> set ys\<close> show ?thesis by simp
  qed
qed

lemma distinct_user_lines:
  "distinct (map (\<lambda>c. (c_user_id c, c_product_id c)) cs) \<Longrightarrow>
   distinct (map c_product_id (filter (\<lambda>c. c_user_id c = uid) cs))"
proof (induction cs)
  case Nil
  show ?case by simp
next
  case (Cons a cs)
  then have IH: "distinct (map c_product_id (filter (\<lambda>c. c_user_id c = uid) cs))"
    by simp
  have fresh: "c_product_id c \<noteq> c_product_id a" if "c \<in> set cs" and "c_user_id c = c_user_id a" for c
  proof
    assume "c_product_id c = c_product_id a"
    with that(2) have "(c_user_id a, c_product_id a) = (\<lambda>c. (c_user_id c, c_product_id c)) c"
      by simp
    then have "(c_user_id a, c_product_id a) \<in> (\<lambda>c. (c_user_id c, c_product_id c)) ` set cs"
      using that(1) by (rule image_eqI)
    with Cons.prems show False
      by simp
  qed
  show ?case
  proof (cases "c_user_id a = uid")
    case True
    have "c_product_id a \<notin> c_product_id ` set (filter (\<lambda>c. c_user_id c = uid) cs)"
    proof
      assume "c_product_id a \<in> c_product_id ` set (filter (\<lambda>c. c_user_id c = uid) cs)"
      then obtain c where c: "c \<in> set cs" "c_user_id c = uid" "c_product_id c = c_product_id a"
        by auto
      from c(1,2) True have "c_product_id c \<noteq> c_product_id a"
        by (intro fresh) simp_all
      with c(3) show False
        by simp
    qed
    with True IH show ?thesis
      by simp
  next
    case False
    with IH show ?thesis
      by simp
  qed
qed

lemma ordered_quantity_one_line:
  assumes "distinct (map p_id (products db))"
    and "distinct (map (\<lambda>c. (c_user_id c, c_product_id c)) (cart db))"
    and "p \<in> set (products db)"
  shows "ordered_quantity (cartResult db uid) (p_id p) = 0 \<or>
         (\<exists>c. (c, p) \<in> set (cartResult db uid) \<and> ordered_quantity (cartResult db uid) (p_id p) = c_quantity c)"
proof -
  let ?cs = "filter (\<lambda>c. c_user_id c = uid) (cart db)"
  have ps: "filter (\<lambda>q. p_id q = p_id p) (products db) = [p]"
    using assms(1,3) by (rule distinct_filter_member)
  have rows: "filter (\<lambda>(c, q). c_product_id c = p_id p) (cartResult db uid) =
        map (\<lambda>c. (c, p)) (filter (\<lambda>c. c_product_id c = p_id p) ?cs)"
    by (simp add: cartResult_def filter_rows_product ps)
  from assms(2) have "distinct (map c_product_id ?cs)"
    by (rule distinct_user_lines)
  then consider "filter (\<lambda>c. c_product_id c = p_id p) ?cs = []"
    | c where "filter (\<lambda>c. c_product_id c = p_id p) ?cs = [c]"
    using distinct_filter_key [of c_product_id ?cs "p_id p"] by blast
  then show ?thesis
  proof cases
    case 1
    with rows show ?thesis
      by (simp add: ordered_quantity_def)
  next
    case (2 c)
    with rows have f: "filter (\<lambda>(c, q). c_product_id c = p_id p) (cartResult db uid) = [(c, p)]"
      by simp
    then have "(c, p) \<in> set (filter (\<lambda>(c, q). c_product_id c = p_id p) (cartResult db uid))"
      by simp
    then have "(c, p) \<in> set (cartResult db uid)"
      by simp
    with f show ?thesis
      by (auto simp: ordered_quantity_def)
  qed
qed

lemma store_ok_scenario: "store_ok db_scenario"
  by (simp add: store_ok_def db_scenario_def productA_def)

text \<open>
  Calls that run one at a time keep stock from going negative: in a store where product
  ids are unique, a user has at most one cart line per product and no stock is negative,
  a successful \<open>createOrderFromCart\<close> leaves a store of the same kind.
\<close>

theorem createOrderFromCart_keeps_stock_nonnegative:
  assumes "store_ok db" and "createOrderFromCart e db d = (Inr ord, db')"
  shows "store_ok db'"
proof -
  let ?rows = "cartResult db (userId d)"
  from assms(2) have ok: "first_short ?rows = None"
    and db': "products db' = decremented ?rows (products db)"
             "cart db' = filter (\<lambda>c. c_user_id c \<noteq> userId d) (cart db)"
    by (auto simp: createOrderFromCart_eq Let_def split: if_splits option.splits)
  from assms(1) have d1: "distinct (map p_id (products db))"
    and d2: "distinct (map (\<lambda>c. (c_user_id c, c_product_id c)) (cart db))"
    and nn: "\<forall>p \<in> set (products db). 0 \<le> stock_quantity p"
    by (simp_all add: store_ok_def list_all_iff)
  have enough: "c_quantity c \<le> stock_quantity p" if "(c, p) \<in> set ?rows" for c p
    using ok that by (fastforce simp: first_short_def find_None_iff not_less)
  have "0 \<le> stock_quantity p - ordered_quantity ?rows (p_id p)" if "p \<in> set (products db)" for p
    using ordered_quantity_one_line [OF d1 d2 that, of "userId d"] nn that enough
    by auto
  then have "list_all (\<lambda>p. 0 \<le> stock_quantity p) (products db')"
    by (simp add: db' decremented_def list_all_iff)
  moreover have "distinct (map p_id (products db'))"
    using d1 by (simp add: db' decremented_def o_def)
  moreover have "distinct (map (\<lambda>c. (c_user_id c, c_product_id c)) (cart db'))"
    using d2 by (simp add: db' distinct_map_filter)
  ultimately show ?thesis
    by (simp add: store_ok_def)
qed

theorem createOrderFromCart_keeps_stock_nonnegative_witness:
  "store_ok db_scenario \<and>
   createOrderFromCart env1 db_scenario data1 = (Inr ord_scenario, db_scenario_after) \<and>
   store_ok db_scenario_after \<and> map stock_quantity (products db_scenario_after) = [3]"
proof -
  have "map stock_quantity (products db_scenario_after) = [3]"
    by (simp add: db_scenario_after_def productA_def)
  with createOrderFromCart_keeps_stock_nonnegative [OF store_ok_scenario createOrderFromCart_scenario]
  show ?thesis
    by (simp add: store_ok_scenario createOrderFromCart_scenario)
qed

subsection \<open>Coupons and order creation\<close>

lemma is_uuid_user1: "is_uuid user1"
  by (simp add: is_uuid_def is_hex_def user1_def)

lemma parse_body_coupon: "createOrderSchema_parse user1 body_coupon = Some data1"
  by (simp add: createOrderSchema_parse_def is_uuid_user1 body_coupon_def data1_def)

lemma cartResult_coupons [simp]: "cartResult (db\<lparr>coupons := ks\<rparr>) uid = cartResult db uid"
  by (simp add: cartResult_def)

lemma parse_couponCode:
  "createOrderSchema_parse uid (b\<lparr>b_couponCode := cc\<rparr>) = createOrderSchema_parse uid b"
  by (simp add: createOrderSchema_parse_def split: option.splits)

lemma parse_userId: "createOrderSchema_parse uid b = Some d \<Longrightarrow> userId d = uid"
  by (auto simp: createOrderSchema_parse_def split: if_splits option.splits)

text \<open>
  Claim C3 as stated fails.  The request supplies the coupon code \<open>SAVE10\<close>.  With the
  coupon expired (\<open>validateCoupon\<close> says so) the order is created all the same; with the
  coupon valid for a discount of 2.00, the order's total is still 20.00.
\<close>

theorem post_orders_coupon_counterexample:
  "validateCoupon (now env1) db_expired ''SAVE10'' 20 =
     \<lparr>valid = False, discount = 0, message = Some Coupon_has_expired\<rparr> \<and>
   fst (post_orders env1 db_expired user1 body_coupon) = Inr ord_scenario \<and>
   validateCoupon (now env1) db_scenario ''SAVE10'' 20 = \<lparr>valid = True, discount = 2, message = None\<rparr> \<and>
   fst (post_orders env1 db_scenario user1 body_coupon) = Inr ord_scenario \<and>
   total_amount ord_scenario = 20"
proof -
  have "fst (createOrderFromCart env1 db_expired data1) = Inr ord_scenario"
    by (simp add: createOrderFromCart_eq Let_def cartResult_def db_scenario_def db_expired_def data1_def env1_def
      first_short_def subtotal_def order_items_for_def decremented_def ordered_quantity_def
      new_order_def productA_def user1_def ord_scenario_def item_scenario_def addr0_def)
  moreover have "validateCoupon (now env1) db_expired ''SAVE10'' 20 =
     \<lparr>valid = False, discount = 0, message = Some Coupon_has_expired\<rparr>"
    by (simp add: validateCoupon_def getByCode_def db_expired_def db_scenario_def coupon0_def
        toUpperCase_def upper_char_def env1_def)
  moreover have "validateCoupon (now env1) db_scenario ''SAVE10'' 20 = \<lparr>valid = True, discount = 2, message = None\<rparr>"
    by (simp add: validateCoupon_def getByCode_def db_scenario_def coupon0_def
        toUpperCase_def upper_char_def env1_def compute_discount_def)
  ultimately show ?thesis
    by (simp add: post_orders_def parse_body_coupon createOrderFromCart_scenario ord_scenario_def)
qed

text \<open>
  Claim C3, amended.  Order creation takes no coupon code: a \<open>couponCode\<close> in the request
  is dropped by \<open>createOrderSchema\<close>, the result does not depend on the coupons table, the
  coupons table is left as it was, and the total of a created order is the undiscounted
  sum of price times quantity.
\<close>

theorem post_orders_no_coupon:
  "post_orders e db uid (b\<lparr>b_couponCode := cc\<rparr>) = post_orders e db uid b \<and>
   fst (post_orders e (db\<lparr>coupons := ks\<rparr>) uid b) = fst (post_orders e db uid b) \<and>
   coupons (snd (post_orders e db uid b)) = coupons db \<and>
   (\<forall>ord. fst (post_orders e db uid b) = Inr ord \<longrightarrow>
      total_amount ord = subtotal (cartResult db uid))"
proof (cases "createOrderSchema_parse uid b")
  case None
  then show ?thesis
    by (simp add: post_orders_def parse_couponCode)
next
  case (Some d)
  then have "userId d = uid"
    by (rule parse_userId)
  with Some show ?thesis
    by (auto simp: post_orders_def parse_couponCode createOrderFromCart_eq Let_def new_order_def
        split: option.splits)
qed

theorem post_orders_no_coupon_witness:
  "fst (post_orders env1 db_scenario user1 body_coupon) = Inr ord_scenario \<and>
   total_amount ord_scenario = subtotal (cartResult db_scenario user1) \<and>
   subtotal (cartResult db_scenario user1) = 20"
proof -
  have h: "fst (post_orders env1 db_scenario user1 body_coupon) = Inr ord_scenario"
    by (simp add: post_orders_def parse_body_coupon createOrderFromCart_scenario)
  have "subtotal (cartResult db_scenario user1) = 20"
    by (simp add: cartResult_def db_scenario_def subtotal_def productA_def)
  with h post_orders_no_coupon [where e = env1 and db = db_scenario and uid = user1 and b = body_coupon] show ?thesis
    by simp
qed

subsection \<open>Overlapping calls\<close>

lemma decremented_twice:
  "map stock_quantity (decremented rows2 (decremented rows1 ps)) =
     map (\<lambda>p. stock_quantity p - ordered_quantity rows1 (p_id p) - ordered_quantity rows2 (p_id p)) ps"
  by (simp add: decremented_def)

lemma createOrderFromCart_overlapped_eq:
  assumes "cartResult db (userId d1) \<noteq> []" and "first_short (cartResult db (userId d1)) = None"
    and "cartResult db (userId d2) \<noteq> []" and "first_short (cartResult db (userId d2)) = None"
  shows "createOrderFromCart_overlapped e1 e2 db d1 d2 =
     (Inr (new_order e1 d1 (subtotal (cartResult db (userId d1)))),
      Inr (new_order e2 d2 (subtotal (cartResult db (userId d2)))),
      db\<lparr>orders := orders db @ [new_order e1 d1 (subtotal (cartResult db (userId d1))),
                                  new_order e2 d2 (subtotal (cartResult db (userId d2)))],
         order_items := order_items db @ order_items_for (new_id e1) (cartResult db (userId d1))
                          @ order_items_for (new_id e2) (cartResult db (userId d2)),
         products := decremented (cartResult db (userId d2))
                       (decremented (cartResult db (userId d1)) (products db)),
         cart := filter (\<lambda>c. c_user_id c \<noteq> userId d2)
                   (filter (\<lambda>c. c_user_id c \<noteq> userId d1) (cart db))\<rparr>)"
  using assms
  by (simp add: createOrderFromCart_overlapped_def read_cart_eq write_order_eq Let_def)

lemma last_unit_rows:
  "cartResult db_last_unit (userId data1) =
      [(\<lparr>c_user_id = user1, c_product_id = ''A'', c_quantity = 1\<rparr>, productA 1 True)]"
  "cartResult db_last_unit (userId data2) =
      [(\<lparr>c_user_id = user2, c_product_id = ''A'', c_quantity = 1\<rparr>, productA 1 True)]"
  by (simp_all add: cartResult_def db_last_unit_def data1_def data2_def user1_def user2_def productA_def)

lemma last_unit_enough:
  "first_short (cartResult db_last_unit (userId data1)) = None"
  "first_short (cartResult db_last_unit (userId data2)) = None"
  by (simp_all add: last_unit_rows first_short_def productA_def)

lemma last_unit_stock:
  "map stock_quantity (decremented (cartResult db_last_unit (userId data2))
      (decremented (cartResult db_last_unit (userId data1)) (products db_last_unit))) = [- 1]"
proof -
  have "products db_last_unit = [productA 1 True]"
    by (simp add: db_last_unit_def)
  then show ?thesis
    by (simp add: decremented_twice last_unit_rows ordered_quantity_def productA_def)
qed

text \<open>
  Claim C4 as stated fails.  Stock of product A is 1 and two users each have one unit in
  the cart.  In the schedule where both calls read before either writes, both calls
  return an order and the stock ends at -1.
\<close>

theorem createOrderFromCart_overlapped_oversells:
  "map stock_quantity (products db_last_unit) = [1] \<and>
   map c_quantity (cart db_last_unit) = [1, 1] \<and>
   (case createOrderFromCart_overlapped env1 env2 db_last_unit data1 data2 of
      (r1, r2, db') \<Rightarrow>
        map_sum id o_id r1 = Inr ''order-1'' \<and> map_sum id o_id r2 = Inr ''order-2'' \<and>
        map stock_quantity (products db') = [- 1])"
proof -
  have "cartResult db_last_unit (userId data1) \<noteq> []" "cartResult db_last_unit (userId data2) \<noteq> []"
    by (simp_all add: last_unit_rows)
  then show ?thesis
    by (simp add: createOrderFromCart_overlapped_eq last_unit_enough last_unit_stock new_order_def
        env1_def env2_def)
      (simp add: db_last_unit_def productA_def)
qed

text \<open>
  Claim C4, amended.  \<open>createOrderFromCart\<close> checks stock once, against the rows it read
  at the start, and its decrement is unconditional (no \<open>WHERE stock_quantity >= qty\<close>,
  no transaction).  When two calls both read before either writes and each call's
  quantities are within the stock read, both succeed, each with the order it would get
  alone, and the stock of every product ends at the stock read minus the quantities of
  both orders, below zero when together they exceed it.
\<close>

theorem createOrderFromCart_overlapped_both_succeed:
  assumes "cartResult db (userId d1) \<noteq> []" and "first_short (cartResult db (userId d1)) = None"
    and "cartResult db (userId d2) \<noteq> []" and "first_short (cartResult db (userId d2)) = None"
  shows "\<exists>o1 o2 db'.
           createOrderFromCart_overlapped e1 e2 db d1 d2 = (Inr o1, Inr o2, db') \<and>
           fst (createOrderFromCart e1 db d1) = Inr o1 \<and>
           fst (createOrderFromCart e2 db d2) = Inr o2 \<and>
           map stock_quantity (products db') =
             map (\<lambda>p. stock_quantity p - ordered_quantity (cartResult db (userId d1)) (p_id p)
                                       - ordered_quantity (cartResult db (userId d2)) (p_id p))
                 (products db)"
  using assms
  by (simp add: createOrderFromCart_overlapped_eq createOrderFromCart_eq decremented_twice Let_def)

theorem createOrderFromCart_overlapped_both_succeed_witness:
  "cartResult db_last_unit (userId data1) \<noteq> [] \<and> first_short (cartResult db_last_unit (userId data1)) = None \<and>
   cartResult db_last_unit (userId data2) \<noteq> [] \<and> first_short (cartResult db_last_unit (userId data2)) = None \<and>
   (\<exists>o1 o2 db'.
      createOrderFromCart_overlapped env1 env2 db_last_unit data1 data2 = (Inr o1, Inr o2, db') \<and>
      map stock_quantity (products db') = [- 1])"
proof -
  have h1: "cartResult db_last_unit (userId data1) \<noteq> []"
    and h3: "cartResult db_last_unit (userId data2) \<noteq> []"
    by (simp_all add: last_unit_rows)
  note h2 = last_unit_enough(1) and h4 = last_unit_enough(2)
  have p: "products db_last_unit = [productA 1 True]"
    by (simp add: db_last_unit_def)
  from createOrderFromCart_overlapped_both_succeed [OF h1 h2 h3 h4, of env1 env2]
  obtain o1 o2 db' where
    "createOrderFromCart_overlapped env1 env2 db_last_unit data1 data2 = (Inr o1, Inr o2, db')"
    and "map stock_quantity (products db') =
             map (\<lambda>p. stock_quantity p - ordered_quantity (cartResult db_last_unit (userId data1)) (p_id p)
                                       - ordered_quantity (cartResult db_last_unit (userId data2)) (p_id p))
                 (products db_last_unit)"
    by blast
  then have "createOrderFromCart_overlapped env1 env2 db_last_unit data1 data2 = (Inr o1, Inr o2, db') \<and>
      map stock_quantity (products db') = [- 1]"
    by (simp add: last_unit_rows p ordered_quantity_def productA_def)
  then have "\<exists>o1 o2 db'.
      createOrderFromCart_overlapped env1 env2 db_last_unit data1 data2 = (Inr o1, Inr o2, db') \<and>
      map stock_quantity (products db') = [- 1]"
    by (intro exI)
  with h1 h2 h3 h4 show ?thesis
    by (intro conjI)
qed

section \<open>Coupons\<close>


lemma getByCode_FLAT50: "getByCode db_coupons ''FLAT50'' = Some coupon_fixed"
  by (simp add: getByCode_def db_coupons_def coupon0_def coupon_fixed_def toUpperCase_def upper_char_def)



text \<open>
  Claim C8 as stated fails.  The fixed coupon \<open>FLAT50\<close> on a subtotal of 20.00 is valid
  and its discount is 50.00, more than the subtotal.
\<close>

theorem validateCoupon_fixed_exceeds_subtotal:
  "discount_type coupon_fixed = ''fixed'' \<and>
   validateCoupon 1000 db_coupons ''FLAT50'' 20 = \<lparr>valid = True, discount = 50, message = None\<rparr> \<and>
   \<not> discount (validateCoupon 1000 db_coupons ''FLAT50'' 20) \<le> 20"
  by (simp add: validateCoupon_def getByCode_FLAT50 compute_discount_def)
    (simp add: coupon_fixed_def)

text \<open>
  Claim C8, amended.  For every valid fixed coupon the discount returned is
  \<open>discount_value\<close> as it stands, not clamped; it is at most the subtotal exactly when
  \<open>discount_value\<close> is.
\<close>

theorem validateCoupon_fixed_verbatim:
  assumes "getByCode db c = Some k" and "discount_type k = ''fixed''"
    and "valid (validateCoupon t db c amt)"
  shows "discount (validateCoupon t db c amt) = discount_value k \<and>
         (discount (validateCoupon t db c amt) \<le> amt \<longleftrightarrow> discount_value k \<le> amt)"
  using assms
  by (auto simp: validateCoupon_def compute_discount_def split: if_splits)

theorem validateCoupon_fixed_verbatim_witness:
  "getByCode db_coupons ''FLAT50'' = Some coupon_fixed \<and> discount_type coupon_fixed = ''fixed'' \<and>
   valid (validateCoupon 1000 db_coupons ''FLAT50'' 20) \<and>
   discount (validateCoupon 1000 db_coupons ''FLAT50'' 20) = 50"
proof -
  have t: "discount_type coupon_fixed = ''fixed''"
    by (simp add: coupon_fixed_def)
  have v: "valid (validateCoupon 1000 db_coupons ''FLAT50'' 20)"
    by (simp add: validateCoupon_def getByCode_FLAT50)
      (simp add: coupon_fixed_def)
  from validateCoupon_fixed_verbatim [OF getByCode_FLAT50 t v] show ?thesis
    using t v by (simp add: getByCode_FLAT50) (simp add: coupon_fixed_def)
qed

text \<open>
  Claim C9 as stated fails.  \<open>SAVE10\<close> has a usage limit of 1 and has been used once;
  \<open>applyCoupon\<close> takes \<open>used_count\<close> to 2.
\<close>

theorem applyCoupon_exceeds_limit:
  "map code (coupons db_coupons) = [''SAVE10'', ''FLAT50''] \<and>
   map usage_limit (coupons db_coupons) = [Some 1, None] \<and>
   map used_count (coupons db_coupons) = [1, 0] \<and>
   map used_count (coupons (snd (applyCoupon db_coupons ''save10''))) = [2, 0] \<and>
   map usage_limit (coupons (snd (applyCoupon db_coupons ''save10''))) = [Some 1, None]"
  by (simp add: applyCoupon_def db_coupons_def coupon0_def coupon_fixed_def toUpperCase_def upper_char_def)

text \<open>
  Claim C9, amended.  \<open>applyCoupon\<close> adds one to \<open>used_count\<close> of every coupon row whose
  code is the upper-cased argument, whatever its \<open>usage_limit\<close>, \<open>used_count\<close>, validity
  window and \<open>is_active\<close>, changes nothing else, and returns the first such row as
  updated.
\<close>

theorem applyCoupon_unconditional:
  "coupons (snd (applyCoupon db c)) =
     map (\<lambda>k. if code k = toUpperCase c then k\<lparr>used_count := used_count k + 1\<rparr> else k) (coupons db) \<and>
   fst (applyCoupon db c) =
     map_option (\<lambda>k. k\<lparr>used_count := used_count k + 1\<rparr>) (find (\<lambda>k. code k = toUpperCase c) (coupons db))"
proof -
  have "(case map f (filter P xs) of [] \<Rightarrow> None | k # _ \<Rightarrow> Some k) = map_option f (find P xs)"
    for f :: "coupon \<Rightarrow> coupon" and P xs
    by (induction xs) auto
  then show ?thesis
    by (simp add: applyCoupon_def Let_def)
qed

section \<open>Payments\<close>

lemma first_of_map_filter:
  "(case map f (filter P xs) of [] \<Rightarrow> a | y # _ \<Rightarrow> g y) = (case find P xs of None \<Rightarrow> a | Some x \<Rightarrow> g (f x))"
  by (induction xs) auto

lemma map_no_hit: "find P xs = None \<Longrightarrow> map (\<lambda>x. if P x then f x else x) xs = xs"
  by (induction xs) (auto split: if_splits)

lemma confirmPayment_eq:
  assumes "paymentIntents_retrieve s ref = Inr intent"
  shows "confirmPayment e s db ref =
     (case find (\<lambda>p. payment_intent_id p = Some ref) (payments db) of
        None \<Rightarrow> (Inl ''Payment record not found'', db)
      | Some p \<Rightarrow>
          (Inr (p\<lparr>status := (if pi_status intent = ''succeeded'' then ''succeeded'' else ''failed''),
                  transaction_id := Some (pi_id intent), pay_updated_at := now e\<rparr>),
           db\<lparr>payments :=
                map (\<lambda>p. if payment_intent_id p = Some ref
                          then p\<lparr>status := (if pi_status intent = ''succeeded'' then ''succeeded'' else ''failed''),
                                 transaction_id := Some (pi_id intent), pay_updated_at := now e\<rparr>
                          else p) (payments db),
              orders :=
                (if pi_status intent = ''succeeded'' \<or> pi_status intent = ''payment_failed'' then
                   map (\<lambda>ord. if o_id ord = pay_order_id p
                               then ord\<lparr>payment_status := (if pi_status intent = ''succeeded'' then ''paid'' else ''failed''),
                                       o_updated_at := now e\<rparr>
                               else ord) (orders db)
                 else orders db)\<rparr>))"
  using assms
  by (auto simp: confirmPayment_def Let_def first_of_map_filter set_order_payment_status_def
      map_no_hit split: option.splits)

lemma retrieve_succeeded:
  "paymentIntents_retrieve (stripe_reporting ''succeeded'') ''pi_1'' = Inr (intent1 ''succeeded'')"
  by (simp add: stripe_reporting_def)

lemma find_payment1: "find (\<lambda>p. payment_intent_id p = Some ''pi_1'') (payments db_pay) = Some payment1"
  by (simp add: db_pay_def payment1_def)

lemma find_map_hit:
  assumes "\<And>x. P (f x) = P x"
  shows "find P (map (\<lambda>x. if P x then f x else x) xs) = map_option f (find P xs)"
  using assms by (induction xs) auto

lemma first_confirm:
  "confirmPayment env1 (stripe_reporting ''succeeded'') db_pay ''pi_1'' = (Inr payment1_confirmed, db_confirmed)"
  by (simp add: confirmPayment_eq [OF retrieve_succeeded] find_payment1)
    (simp add: db_pay_def payment1_def order1_def intent1_def env1_def payment1_confirmed_def
      db_confirmed_def)

lemma createPaymentIntent_eq:
  "createPaymentIntent e s db d =
     (case find (\<lambda>ord. o_id ord = d_orderId d) (orders db) of
        None \<Rightarrow> (Inl ''Order not found'', db)
      | Some ord \<Rightarrow>
          if payment_status ord = ''paid'' then (Inl ''Order is already paid'', db)
          else
            (case paymentIntents_create s
                    \<lparr>ip_amount = Math_round (d_amount d * 100),
                     ip_currency = toLowerCase (d_currency d),
                     payment_method_types = [d_paymentMethod d],
                     metadata_orderId = d_orderId d\<rparr> of
               Inl err \<Rightarrow> (Inl err, db)
             | Inr paymentIntent \<Rightarrow>
                 (Inr (\<lparr>pay_id = new_id e, pay_order_id = d_orderId d, amount = d_amount d,
                             currency = d_currency d, payment_method = d_paymentMethod d,
                             payment_intent_id = Some (pi_id paymentIntent), status = ''pending'',
                             transaction_id = None, pay_created_at = now e, pay_updated_at = now e\<rparr>,
                       client_secret paymentIntent),
                  db\<lparr>payments := payments db @
                     [\<lparr>pay_id = new_id e, pay_order_id = d_orderId d, amount = d_amount d,
                             currency = d_currency d, payment_method = d_paymentMethod d,
                             payment_intent_id = Some (pi_id paymentIntent), status = ''pending'',
                             transaction_id = None, pay_created_at = now e, pay_updated_at = now e\<rparr>]\<rparr>)))"
proof -
  have "(case filter P xs of [] \<Rightarrow> a | y # _ \<Rightarrow> g y) = (case find P xs of None \<Rightarrow> a | Some x \<Rightarrow> g x)"
    for P and xs :: "order list" and a :: "(string + payment \<times> string option) \<times> database" and g
    by (induction xs) auto
  then show ?thesis
    by (simp add: createPaymentIntent_def Let_def split: option.splits sum.splits)
qed


text \<open>
  Claim C5, at the processor status \<open>canceled\<close>, which is final.  \<open>confirmPayment\<close> finds
  the payment by its intent id and sets it to \<open>failed\<close>, but the order keeps the payment
  status \<open>pending\<close>: the order is set to \<open>failed\<close> only for the status
  \<open>payment_failed\<close>.
\<close>

theorem confirmPayment_canceled:
  "paymentIntents_retrieve (stripe_reporting ''canceled'') ''pi_1'' = Inr (intent1 ''canceled'') \<and>
   map payment_status (orders db_pay) = [''pending''] \<and>
   fst (confirmPayment env2 (stripe_reporting ''canceled'') db_pay ''pi_1'') =
     Inr (payment1\<lparr>status := ''failed'', transaction_id := Some ''pi_1'', pay_updated_at := 2000\<rparr>) \<and>
   map status (payments (snd (confirmPayment env2 (stripe_reporting ''canceled'') db_pay ''pi_1''))) = [''failed''] \<and>
   map payment_status (orders (snd (confirmPayment env2 (stripe_reporting ''canceled'') db_pay ''pi_1''))) = [''pending'']"
proof -
  have r: "paymentIntents_retrieve (stripe_reporting ''canceled'') ''pi_1'' = Inr (intent1 ''canceled'')"
    by (simp add: stripe_reporting_def)
  show ?thesis
    by (simp add: confirmPayment_eq [OF r] r)
      (simp add: db_pay_def payment1_def order1_def intent1_def env2_def)
qed

text \<open>
  The part of C5 about success.  When the processor reports \<open>succeeded\<close> and a payment
  row has the intent id, \<open>confirmPayment\<close> returns the first such row with status
  \<open>succeeded\<close>, every payment row of that intent id has status \<open>succeeded\<close> and every
  order of the returned payment has payment status \<open>paid\<close>.
\<close>

theorem confirmPayment_succeeded:
  assumes "paymentIntents_retrieve s ref = Inr intent" and "pi_status intent = ''succeeded''"
    and "find (\<lambda>p. payment_intent_id p = Some ref) (payments db) = Some p"
  shows "\<exists>db'. confirmPayment e s db ref =
            (Inr (p\<lparr>status := ''succeeded'', transaction_id := Some (pi_id intent),
                    pay_updated_at := now e\<rparr>), db') \<and>
          (\<forall>q \<in> set (payments db'). payment_intent_id q = Some ref \<longrightarrow> status q = ''succeeded'') \<and>
          (\<forall>ord \<in> set (orders db'). o_id ord = pay_order_id p \<longrightarrow> payment_status ord = ''paid'')"
  using assms by (auto simp: confirmPayment_eq)

theorem confirmPayment_succeeded_witness:
  "paymentIntents_retrieve (stripe_reporting ''succeeded'') ''pi_1'' = Inr (intent1 ''succeeded'') \<and>
   pi_status (intent1 ''succeeded'') = ''succeeded'' \<and>
   find (\<lambda>p. payment_intent_id p = Some ''pi_1'') (payments db_pay) = Some payment1 \<and>
   fst (confirmPayment env1 (stripe_reporting ''succeeded'') db_pay ''pi_1'') =
     Inr (payment1\<lparr>status := ''succeeded'', transaction_id := Some ''pi_1'', pay_updated_at := 1000\<rparr>)"
proof -
  have st: "pi_status (intent1 ''succeeded'') = ''succeeded''"
    by (simp add: intent1_def)
  from confirmPayment_succeeded [OF retrieve_succeeded st find_payment1, of env1]
  have "fst (confirmPayment env1 (stripe_reporting ''succeeded'') db_pay ''pi_1'') =
     Inr (payment1\<lparr>status := ''succeeded'', transaction_id := Some (pi_id (intent1 ''succeeded'')),
            pay_updated_at := now env1\<rparr>)"
    by auto
  then show ?thesis
    using st by (simp add: retrieve_succeeded find_payment1) (simp add: intent1_def env1_def)
qed

text \<open>
  A reference that no payment row has: the call throws \<open>Payment record not found\<close> and
  the store is as it was, whatever status the processor reports.
\<close>

theorem confirmPayment_not_found:
  assumes "paymentIntents_retrieve s ref = Inr intent"
    and "\<forall>p \<in> set (payments db). payment_intent_id p \<noteq> Some ref"
  shows "confirmPayment e s db ref = (Inl ''Payment record not found'', db)"
proof -
  from assms(2) have "find (\<lambda>p. payment_intent_id p = Some ref) (payments db) = None"
    by (simp add: find_None_iff)
  with assms(1) show ?thesis
    by (simp add: confirmPayment_eq)
qed

theorem confirmPayment_not_found_witness:
  "paymentIntents_retrieve (stripe_reporting ''succeeded'') ''pi_1'' = Inr (intent1 ''succeeded'') \<and>
   payments db_unpaid = [] \<and>
   confirmPayment env1 (stripe_reporting ''succeeded'') db_unpaid ''pi_1'' =
     (Inl ''Payment record not found'', db_unpaid)"
proof -
  have p: "payments db_unpaid = []"
    by (simp add: db_unpaid_def)
  then have h: "\<forall>p \<in> set (payments db_unpaid). payment_intent_id p \<noteq> Some ''pi_1''"
    by simp
  from confirmPayment_not_found [OF retrieve_succeeded h, of env1] p show ?thesis
    by (simp add: retrieve_succeeded)
qed

text \<open>
  Claim C6 as stated fails.  Two confirmations of \<open>pi_1\<close>, at times 1000 and 2000, the
  processor reporting \<open>succeeded\<close> both times: the order is \<open>paid\<close> after each, and the
  second call writes the payment row and the order again, taking \<open>updated_at\<close> from 1000
  to 2000.
\<close>

theorem confirmPayment_second_call_touches:
  "(case confirmPayment env1 (stripe_reporting ''succeeded'') db_pay ''pi_1'' of
      (r1, db1) \<Rightarrow>
        (case confirmPayment env2 (stripe_reporting ''succeeded'') db1 ''pi_1'' of
           (r2, db2) \<Rightarrow>
             map payment_status (orders db1) = [''paid''] \<and>
             map payment_status (orders db2) = [''paid''] \<and>
             map pay_updated_at (payments db1) = [1000] \<and>
             map pay_updated_at (payments db2) = [2000] \<and>
             map o_updated_at (orders db1) = [1000] \<and>
             map o_updated_at (orders db2) = [2000]))"
  by (simp add: confirmPayment_eq [OF retrieve_succeeded] find_payment1 split_def)
    (simp add: db_pay_def payment1_def order1_def intent1_def env1_def env2_def)

text \<open>
  Claim C6, amended.  When the processor reports \<open>succeeded\<close> and a first confirmation
  has returned a payment, a second confirmation with the same reference returns that
  payment with the same status and transaction id, and the order stays \<open>paid\<close>; but it
  runs both updates again: \<open>updated_at\<close> of the payment rows of that intent and of the
  order becomes the time of the second call, and nothing else changes.
\<close>

theorem confirmPayment_twice:
  assumes "paymentIntents_retrieve s ref = Inr intent" and "pi_status intent = ''succeeded''"
    and "confirmPayment e1 s db ref = (Inr p1, db1)"
  shows "confirmPayment e2 s db1 ref =
           (Inr (p1\<lparr>pay_updated_at := now e2\<rparr>),
            db1\<lparr>payments := map (\<lambda>p. if payment_intent_id p = Some ref
                                       then p\<lparr>pay_updated_at := now e2\<rparr> else p) (payments db1),
                orders := map (\<lambda>ord. if o_id ord = pay_order_id p1
                                      then ord\<lparr>o_updated_at := now e2\<rparr> else ord) (orders db1)\<rparr>) \<and>
         status p1 = ''succeeded'' \<and>
         (\<forall>ord \<in> set (orders db1). o_id ord = pay_order_id p1 \<longrightarrow> payment_status ord = ''paid'')"
proof -
  let ?hit = "\<lambda>p. payment_intent_id p = Some ref"
  let ?upd = "\<lambda>t p. p\<lparr>status := ''succeeded'', transaction_id := Some (pi_id intent),
                        pay_updated_at := t\<rparr>"
  let ?paid = "\<lambda>t oid ord. if o_id ord = oid then ord\<lparr>payment_status := ''paid'', o_updated_at := t\<rparr> else ord"
  from assms obtain p where f: "find ?hit (payments db) = Some p"
    by (auto simp: confirmPayment_eq split: option.splits)
  with assms have p1: "p1 = ?upd (now e1) p"
    and db1: "db1 = db\<lparr>payments := map (\<lambda>p. if ?hit p then ?upd (now e1) p else p) (payments db),
                       orders := map (?paid (now e1) (pay_order_id p)) (orders db)\<rparr>"
    by (auto simp: confirmPayment_eq)
  have f1: "find ?hit (payments db1) = Some p1"
    by (simp add: db1 p1 find_map_hit f)
  have pays: "map (\<lambda>p. if ?hit p then ?upd (now e2) p else p) (payments db1) =
              map (\<lambda>p. if ?hit p then p\<lparr>pay_updated_at := now e2\<rparr> else p) (payments db1)"
    by (simp add: db1)
  have ords: "map (?paid (now e2) (pay_order_id p1)) (orders db1) =
              map (\<lambda>ord. if o_id ord = pay_order_id p1 then ord\<lparr>o_updated_at := now e2\<rparr> else ord) (orders db1)"
    by (simp add: db1 p1)
  have "confirmPayment e2 s db1 ref =
      (Inr (?upd (now e2) p1),
       db1\<lparr>payments := map (\<lambda>p. if ?hit p then ?upd (now e2) p else p) (payments db1),
           orders := map (?paid (now e2) (pay_order_id p1)) (orders db1)\<rparr>)"
    using assms(1,2) by (simp add: confirmPayment_eq f1)
  moreover have "?upd (now e2) p1 = p1\<lparr>pay_updated_at := now e2\<rparr>"
    by (simp add: p1)
  moreover have "status p1 = ''succeeded''"
    by (simp add: p1)
  moreover have "\<forall>ord \<in> set (orders db1). o_id ord = pay_order_id p1 \<longrightarrow> payment_status ord = ''paid''"
    by (auto simp: db1 p1)
  ultimately show ?thesis
    by (simp only: pays ords)
qed

theorem confirmPayment_twice_witness:
  "paymentIntents_retrieve (stripe_reporting ''succeeded'') ''pi_1'' = Inr (intent1 ''succeeded'') \<and>
   pi_status (intent1 ''succeeded'') = ''succeeded'' \<and>
   confirmPayment env1 (stripe_reporting ''succeeded'') db_pay ''pi_1'' = (Inr payment1_confirmed, db_confirmed) \<and>
   fst (confirmPayment env2 (stripe_reporting ''succeeded'') db_confirmed ''pi_1'') =
     Inr (payment1_confirmed\<lparr>pay_updated_at := 2000\<rparr>) \<and>
   pay_updated_at payment1_confirmed = 1000 \<and>
   status payment1_confirmed = ''succeeded''"
proof -
  have st: "pi_status (intent1 ''succeeded'') = ''succeeded''"
    by (simp add: intent1_def)
  from confirmPayment_twice [OF retrieve_succeeded st first_confirm, of env2]
  have "fst (confirmPayment env2 (stripe_reporting ''succeeded'') db_confirmed ''pi_1'') =
     Inr (payment1_confirmed\<lparr>pay_updated_at := now env2\<rparr>)"
    and "status payment1_confirmed = ''succeeded''"
    by simp_all
  moreover have "pay_updated_at payment1_confirmed = 1000"
    by (simp add: payment1_confirmed_def)
  ultimately show ?thesis
    using st by (simp add: retrieve_succeeded first_confirm) (simp add: env2_def)
qed



text \<open>
  An order already paid: \<open>createPaymentIntent\<close> throws \<open>Order is already paid\<close> before
  it calls the processor, and inserts no payment row.
\<close>

theorem createPaymentIntent_already_paid:
  assumes "find (\<lambda>ord. o_id ord = d_orderId d) (orders db) = Some ord"
    and "payment_status ord = ''paid''"
  shows "createPaymentIntent e s db d = (Inl ''Order is already paid'', db)"
  using assms by (simp add: createPaymentIntent_eq)

theorem createPaymentIntent_already_paid_witness:
  "find (\<lambda>ord. o_id ord = d_orderId intent_data) (orders db_confirmed) =
     Some (order1\<lparr>payment_status := ''paid'', o_updated_at := 1000\<rparr>) \<and>
   createPaymentIntent env3 (stripe_reporting ''succeeded'') db_confirmed intent_data =
     (Inl ''Order is already paid'', db_confirmed)"
proof -
  have h: "find (\<lambda>ord. o_id ord = d_orderId intent_data) (orders db_confirmed) =
     Some (order1\<lparr>payment_status := ''paid'', o_updated_at := 1000\<rparr>)"
    by (simp add: db_confirmed_def order1_def intent_data_def)
  have "payment_status (order1\<lparr>payment_status := ''paid'', o_updated_at := 1000\<rparr>) = ''paid''"
    by simp
  from createPaymentIntent_already_paid [OF h this, of env3 "stripe_reporting ''succeeded''"] h
  show ?thesis
    by simp
qed

end
